theory Spec2Isabelle
  imports Complex_Main
begin

section \<open>Python values\<close>

text \<open>
  The values \<^verbatim>\<open>json.loads\<close> builds: \<^verbatim>\<open>None\<close>, booleans, ints, floats, strs, lists and
  dicts with str keys. A dict is the list of its items in insertion order (one item per
  key). A str is a list of 8-bit characters. A float is the rational number it denotes;
  \<^verbatim>\<open>NaN\<close> and the infinities are left out.
\<close>

datatype json =
    JNull
  | JBool bool
  | JInt int
  | JFloat rat
  | JStr string
  | JArr "json list"
  | JObj "(string \<times> json) list"

text \<open>
  The exceptions that can leave the functions of \<^verbatim>\<open>elsapy.py\<close>. \<open>RequestException\<close>
  stands for every exception of that family raised by \<^verbatim>\<open>requests.get\<close> itself
  (connection failure, timeout, invalid URL); \<open>HTTPError\<close> is its subclass named in the
  \<^verbatim>\<open>except\<close> clauses.
\<close>

datatype exn =
    HTTPError
  | RequestException
  | TypeError
  | KeyError string
  | IndexError
  | ValueError
  | JSONDecodeError
  | ZeroDivisionError
  | AttributeError string

definition bind_exn :: "exn + 'a \<Rightarrow> ('a \<Rightarrow> exn + 'b) \<Rightarrow> exn + 'b" where
  "bind_exn r f = (case r of Inl e \<Rightarrow> Inl e | Inr v \<Rightarrow> f v)"

text \<open>\<^verbatim>\<open>x[k]\<close> for a str key \<open>k\<close>: a dict looks the key up; nothing else takes a str index.\<close>

fun getitem :: "json \<Rightarrow> string \<Rightarrow> exn + json" where
  "getitem (JObj kvs) k = (case map_of kvs k of None \<Rightarrow> Inl (KeyError k) | Some v \<Rightarrow> Inr v)"
| "getitem _ k = Inl TypeError"

text \<open>\<^verbatim>\<open>xs[0]\<close> on a list.\<close>

fun first_item :: "json list \<Rightarrow> exn + json" where
  "first_item [] = Inl IndexError"
| "first_item (x # xs) = Inr x"

text \<open>\<^verbatim>\<open>[x for x in v]\<close>: a list gives its elements, a dict its keys, a str its characters.\<close>

fun py_iter :: "json \<Rightarrow> exn + json list" where
  "py_iter (JArr xs) = Inr xs"
| "py_iter (JObj kvs) = Inr (map (\<lambda>kv. JStr (fst kv)) kvs)"
| "py_iter (JStr s) = Inr (map (\<lambda>c. JStr [c]) s)"
| "py_iter _ = Inl TypeError"

text \<open>\<^verbatim>\<open>a + b\<close> where one operand is known to be a str: two strs concatenate.\<close>

fun str_concat :: "json \<Rightarrow> json \<Rightarrow> exn + json" where
  "str_concat (JStr a) (JStr b) = Inr (JStr (a @ b))"
| "str_concat _ _ = Inl TypeError"

subsection \<open>\<^verbatim>\<open>int(x)\<close> and \<^verbatim>\<open>str(n)\<close>\<close>

definition is_space :: "char \<Rightarrow> bool" where
  "is_space c = (let n = (of_char c :: nat) in (9 \<le> n \<and> n \<le> 13) \<or> (28 \<le> n \<and> n \<le> 32))"

definition is_digit :: "char \<Rightarrow> bool" where
  "is_digit c = (let n = (of_char c :: nat) in 48 \<le> n \<and> n \<le> 57)"

definition digit_val :: "char \<Rightarrow> nat" where
  "digit_val c = of_char c - 48"

text \<open>Decimal digits, single underscores allowed between two digits.\<close>

fun digits :: "nat \<Rightarrow> bool \<Rightarrow> string \<Rightarrow> nat option" where
  "digits acc after_digit [] = (if after_digit then Some acc else None)"
| "digits acc after_digit (c # cs) =
     (if is_digit c then digits (10 * acc + digit_val c) True cs
      else if c = CHR ''_'' \<and> after_digit then digits acc False cs
      else None)"

definition strip :: "string \<Rightarrow> string" where
  "strip s = rev (dropWhile is_space (rev (dropWhile is_space s)))"

definition int_of_str :: "string \<Rightarrow> int option" where
  "int_of_str s =
     (case strip s of
        [] \<Rightarrow> None
      | c # cs \<Rightarrow>
          if c = CHR ''-'' then map_option (\<lambda>n. - int n) (digits 0 False cs)
          else if c = CHR ''+'' then map_option int (digits 0 False cs)
          else map_option int (digits 0 False (c # cs)))"

text \<open>
  \<^verbatim>\<open>int(x)\<close>: an int is itself, a bool is 0 or 1, a float is truncated towards zero, a str
  is read as a decimal literal. (The interpreter's cap on the number of digits of a
  literal is not modelled.)
\<close>

fun py_int :: "json \<Rightarrow> exn + int" where
  "py_int (JInt n) = Inr n"
| "py_int (JBool b) = Inr (if b then 1 else 0)"
| "py_int (JFloat q) = Inr (if 0 \<le> q then \<lfloor>q\<rfloor> else \<lceil>q\<rceil>)"
| "py_int (JStr s) = (case int_of_str s of None \<Rightarrow> Inl ValueError | Some n \<Rightarrow> Inr n)"
| "py_int _ = Inl TypeError"

fun str_nat :: "nat \<Rightarrow> string" where
  "str_nat n =
     (if n < 10 then [''0123456789'' ! n]
      else str_nat (n div 10) @ [''0123456789'' ! (n mod 10)])"

definition str_int :: "int \<Rightarrow> string" where
  "str_int i = (if i < 0 then CHR ''-'' # str_nat (nat (- i)) else str_nat (nat i))"

section \<open>The world outside the library\<close>

text \<open>
  Time is the reading of \<^verbatim>\<open>time.time()\<close>, in seconds, as an exact number. It moves only
  while the program sleeps or waits for a reply. Each request the program sends is
  logged with the clock reading at which it left.
\<close>

record request =
  sent_at :: rat
  url :: string
  headers :: "(string \<times> string) list"

record world =
  now :: rat
  slept :: "rat list"
  sent :: "request list"

text \<open>
  A reply is what \<^verbatim>\<open>requests.get\<close> does for one request: it returns a response, or it
  raises an exception of the \<^verbatim>\<open>RequestException\<close> family. \<open>decoded\<close> is the value of
  \<^verbatim>\<open>json.loads\<close> on the response's text, \<open>None\<close> when the text is not JSON. \<open>latency\<close>
  is how long the call takes and \<open>oversleep\<close> how much longer than asked a sleep before
  this request lasts. The network is the sequence of replies, by the number of requests
  sent before.
\<close>

record response =
  status_code :: int
  body_text :: string
  decoded :: "json option"

datatype get_result = Returned response | Raised

record reply =
  outcome :: get_result
  oversleep :: rat
  latency :: rat

type_synonym net = "nat \<Rightarrow> reply"

definition time_sleep :: "rat \<Rightarrow> rat \<Rightarrow> world \<Rightarrow> world" where
  "time_sleep secs extra w = w\<lparr>now := now w + secs + extra, slept := slept w @ [secs]\<rparr>"

definition json_loads :: "response \<Rightarrow> exn + json" where
  "json_loads r = (case decoded r of None \<Rightarrow> Inl JSONDecodeError | Some j \<Rightarrow> Inr j)"

section \<open>elsClient\<close>

definition base_url :: string where
  "base_url = ''https://api.elsevier.com/''"

definition userAgent :: string where
  "userAgent = ''elsapy.py''"

definition minReqInterval :: rat where
  "minReqInterval = 1"

text \<open>
  \<open>tsLastReq\<close> starts as the class attribute (the clock reading when the class was
  defined, \<open>ts0\<close>) and is the instance's own from the first request on. \<open>numRes\<close> is the
  class attribute 25 unless it is set otherwise.
\<close>

record client =
  apiKey :: string
  instToken :: string
  tsLastReq :: rat
  numRes :: int

definition elsClient_init :: "rat \<Rightarrow> string \<Rightarrow> string \<Rightarrow> client" where
  "elsClient_init ts0 key tok = \<lparr>apiKey = key, instToken = tok, tsLastReq = ts0, numRes = 25\<rparr>"

definition setInstToken :: "string \<Rightarrow> client \<Rightarrow> client" where
  "setInstToken tok self = self\<lparr>instToken := tok\<rparr>"

definition getBaseURL :: "client \<Rightarrow> string" where
  "getBaseURL self = base_url"

definition showApiKey :: "client \<Rightarrow> string" where
  "showApiKey self = apiKey self"

definition request_headers :: "client \<Rightarrow> (string \<times> string) list" where
  "request_headers self =
     [(''X-ELS-APIKey'', apiKey self), (''User-Agent'', userAgent), (''Accept'', ''application/json'')]
     @ (if instToken self \<noteq> [] then [(''X-ELS-Insttoken'', instToken self)] else [])"

text \<open>
  \<^verbatim>\<open>raise (requests.HTTPError, requests.RequestException)\<close> raises a tuple, which is not
  an exception: the interpreter raises \<open>TypeError\<close> in its place. The \<^verbatim>\<open>print\<close> after it
  is never reached.
\<close>

definition execRequest :: "net \<Rightarrow> string \<Rightarrow> client \<Rightarrow> world \<Rightarrow> (exn + json) \<times> client \<times> world" where
  "execRequest net URL self w =
     (let rp = net (length (sent w));
          interval = now w - tsLastReq self;
          w1 = (if interval < minReqInterval
                then time_sleep (minReqInterval - interval) (oversleep rp) w else w);
          self1 = self\<lparr>tsLastReq := now w1\<rparr>;
          rq = \<lparr>sent_at = now w1, url = URL, headers = request_headers self1\<rparr>;
          w2 = w1\<lparr>now := now w1 + latency rp, sent := sent w1 @ [rq]\<rparr>
      in case outcome rp of
           Raised \<Rightarrow> (Inl RequestException, self1, w2)
         | Returned r \<Rightarrow>
             if status_code r = 200 then (json_loads r, self1, w2)
             else (Inl TypeError, self1, w2))"

section \<open>elsEntity\<close>

record entity =
  uri :: string
  data :: "json option"
  ID :: "json option"

text \<open>\<^verbatim>\<open>except (requests.HTTPError, requests.RequestException): return False\<close>\<close>

definition handler :: "exn \<Rightarrow> exn + bool" where
  "handler e = (if e = HTTPError \<or> e = RequestException then Inr False else Inl e)"

text \<open>The payload under \<open>payloadType\<close>, or its first element when it is a list.\<close>

definition payload :: "json \<Rightarrow> string \<Rightarrow> exn + json" where
  "payload apiResponse payloadType =
     bind_exn (getitem apiResponse payloadType)
       (\<lambda>v. case v of JArr xs \<Rightarrow> first_item xs | _ \<Rightarrow> Inr v)"

definition elsEntity_read ::
  "net \<Rightarrow> string \<Rightarrow> 'a entity_scheme \<Rightarrow> client \<Rightarrow> world
     \<Rightarrow> (exn + bool) \<times> 'a entity_scheme \<times> client \<times> world" where
  "elsEntity_read net payloadType self c w =
     (case execRequest net (uri self) c w of (r, c1, w1) \<Rightarrow>
        (case bind_exn r (\<lambda>apiResponse. payload apiResponse payloadType) of
           Inl e \<Rightarrow> (handler e, self, c1, w1)
         | Inr d \<Rightarrow>
             let self1 = self\<lparr>data := Some d\<rparr> in
             (case bind_exn (getitem d ''coredata'') (\<lambda>cd. getitem cd ''dc:identifier'') of
                Inl e \<Rightarrow> (handler e, self1, c1, w1)
              | Inr i \<Rightarrow> (Inr True, self1\<lparr>ID := Some i\<rparr>, c1, w1))))"

definition getURI :: "'a entity_scheme \<Rightarrow> string" where
  "getURI self = uri self"

text \<open>Reading an attribute that was never assigned raises \<open>AttributeError\<close>.\<close>

definition getattr :: "string \<Rightarrow> 'v option \<Rightarrow> exn + 'v" where
  "getattr nm field = (case field of None \<Rightarrow> Inl (AttributeError nm) | Some v \<Rightarrow> Inr v)"

section \<open>elsProfile\<close>

record profile = entity +
  docList :: "json list option"

definition docs_of :: "json \<Rightarrow> exn + json list" where
  "docs_of d =
     bind_exn (bind_exn (getitem d ''documents'') (\<lambda>ds. getitem ds ''abstract-document'')) py_iter"

definition doc_count :: "json \<Rightarrow> exn + int" where
  "doc_count d =
     bind_exn (bind_exn (getitem d ''documents'') (\<lambda>ds. getitem ds ''@total'')) py_int"

definition page_url :: "string \<Rightarrow> int \<Rightarrow> nat \<Rightarrow> string" where
  "page_url u P i = u @ ''?view=documents&start='' @ str_int ((int i + 1) * P + 1)"

text \<open>The body of the \<^verbatim>\<open>for\<close> loop of \<^verbatim>\<open>readDocs\<close>, over the indices of the range.\<close>

fun readDocs_pages ::
  "net \<Rightarrow> string \<Rightarrow> nat list \<Rightarrow> 'a profile_scheme \<Rightarrow> client \<Rightarrow> world
     \<Rightarrow> (exn + unit) \<times> 'a profile_scheme \<times> client \<times> world" where
  "readDocs_pages net payloadType [] self c w = (Inr (), self, c, w)"
| "readDocs_pages net payloadType (i # rest) self c w =
     (case execRequest net (page_url (uri self) (numRes c) i) c w of (r, c1, w1) \<Rightarrow>
        (case bind_exn r (\<lambda>apiResponse. payload apiResponse payloadType) of
           Inl e \<Rightarrow> (Inl e, self, c1, w1)
         | Inr d \<Rightarrow>
             (case bind_exn (getattr ''docList'' (docList self))
                     (\<lambda>old. bind_exn (docs_of d) (\<lambda>new. Inr (old @ new))) of
                Inl e \<Rightarrow> (Inl e, self, c1, w1)
              | Inr l \<Rightarrow> readDocs_pages net payloadType rest (self\<lparr>docList := Some l\<rparr>) c1 w1)))"

definition elsProfile_readDocs ::
  "net \<Rightarrow> string \<Rightarrow> 'a profile_scheme \<Rightarrow> client \<Rightarrow> world
     \<Rightarrow> (exn + bool) \<times> 'a profile_scheme \<times> client \<times> world" where
  "elsProfile_readDocs net payloadType self c w =
     (case execRequest net (uri self @ ''?view=documents'') c w of (r, c1, w1) \<Rightarrow>
        (case bind_exn r (\<lambda>apiResponse. payload apiResponse payloadType) of
           Inl e \<Rightarrow> (handler e, self, c1, w1)
         | Inr d \<Rightarrow>
             (case doc_count d of
                Inl e \<Rightarrow> (handler e, self, c1, w1)
              | Inr docCount \<Rightarrow>
                  (case docs_of d of
                     Inl e \<Rightarrow> (handler e, self, c1, w1)
                   | Inr l \<Rightarrow>
                       let self1 = self\<lparr>docList := Some l\<rparr> in
                       if numRes c1 = 0 then (handler ZeroDivisionError, self1, c1, w1)
                       else
                         (case readDocs_pages net payloadType
                                 [0 ..< nat (docCount div numRes c1)] self1 c1 w1 of
                            (r2, self2, c2, w2) \<Rightarrow>
                              (case r2 of
                                 Inl e \<Rightarrow> (handler e, self2, c2, w2)
                               | Inr u \<Rightarrow> (Inr True, self2, c2, w2)))))))"

section \<open>elsAuthor, elsAffil, elsDoc\<close>

record author = profile +
  firstName :: "json option"
  lastName :: "json option"
  fullName :: "json option"

record affil = profile +
  name :: "json option"

record doc = entity +
  title :: "json option"

definition author_payloadType :: string where
  "author_payloadType = ''author-retrieval-response''"

definition affil_payloadType :: string where
  "affil_payloadType = ''affiliation-retrieval-response''"

definition doc_payloadType :: string where
  "doc_payloadType = ''abstracts-retrieval-response''"

definition elsAuthor_init :: "string \<Rightarrow> author" where
  "elsAuthor_init URI =
     \<lparr>uri = URI, data = None, ID = None, docList = None,
      firstName = Some (JStr ''''), lastName = Some (JStr ''''), fullName = None\<rparr>"

definition elsAffil_init :: "string \<Rightarrow> affil" where
  "elsAffil_init URI = \<lparr>uri = URI, data = None, ID = None, docList = None, name = None\<rparr>"

definition elsDoc_init :: "string \<Rightarrow> doc" where
  "elsDoc_init URI = \<lparr>uri = URI, data = None, ID = None, title = None\<rparr>"

definition preferred_name :: "json \<Rightarrow> string \<Rightarrow> exn + json" where
  "preferred_name d part =
     bind_exn (bind_exn (getitem d ''author-profile'') (\<lambda>p. getitem p ''preferred-name''))
       (\<lambda>n. getitem n part)"

definition elsAuthor_read ::
  "net \<Rightarrow> author \<Rightarrow> client \<Rightarrow> world \<Rightarrow> (exn + bool) \<times> author \<times> client \<times> world" where
  "elsAuthor_read net self c w =
     (case elsEntity_read net author_payloadType self c w of (r, self1, c1, w1) \<Rightarrow>
        (case r of
           Inl e \<Rightarrow> (Inl e, self1, c1, w1)
         | Inr ok \<Rightarrow>
             if ok then
               (case bind_exn (getattr ''data'' (data self1)) (\<lambda>d. preferred_name d ''given-name'') of
                  Inl e \<Rightarrow> (Inl e, self1, c1, w1)
                | Inr given \<Rightarrow>
                    let self2 = self1\<lparr>firstName := Some given\<rparr> in
                    (case bind_exn (getattr ''data'' (data self2)) (\<lambda>d. preferred_name d ''surname'') of
                       Inl e \<Rightarrow> (Inl e, self2, c1, w1)
                     | Inr sur \<Rightarrow>
                         let self3 = self2\<lparr>lastName := Some sur\<rparr> in
                         (case bind_exn (str_concat given (JStr '' '')) (\<lambda>s. str_concat s sur) of
                            Inl e \<Rightarrow> (Inl e, self3, c1, w1)
                          | Inr full \<Rightarrow> (Inr True, self3\<lparr>fullName := Some full\<rparr>, c1, w1))))
             else (Inr False, self1, c1, w1)))"


definition elsAffil_read ::
  "net \<Rightarrow> affil \<Rightarrow> client \<Rightarrow> world \<Rightarrow> (exn + bool) \<times> affil \<times> client \<times> world" where
  "elsAffil_read net self c w =
     (case elsEntity_read net affil_payloadType self c w of (r, self1, c1, w1) \<Rightarrow>
        (case r of
           Inl e \<Rightarrow> (Inl e, self1, c1, w1)
         | Inr ok \<Rightarrow>
             if ok then
               (case bind_exn (getattr ''data'' (data self1)) (\<lambda>d. getitem d ''affiliation-name'') of
                  Inl e \<Rightarrow> (Inl e, self1, c1, w1)
                | Inr n \<Rightarrow> (Inr True, self1\<lparr>name := Some n\<rparr>, c1, w1))
             else (Inr False, self1, c1, w1)))"

definition elsAffil_readDocs ::
  "net \<Rightarrow> affil \<Rightarrow> client \<Rightarrow> world \<Rightarrow> (exn + bool) \<times> affil \<times> client \<times> world" where
  "elsAffil_readDocs net self c w = elsProfile_readDocs net affil_payloadType self c w"

definition elsDoc_read ::
  "net \<Rightarrow> doc \<Rightarrow> client \<Rightarrow> world \<Rightarrow> (exn + bool) \<times> doc \<times> client \<times> world" where
  "elsDoc_read net self c w =
     (case elsEntity_read net doc_payloadType self c w of (r, self1, c1, w1) \<Rightarrow>
        (case r of
           Inl e \<Rightarrow> (Inl e, self1, c1, w1)
         | Inr ok \<Rightarrow>
             if ok then
               (case bind_exn (getattr ''data'' (data self1))
                       (\<lambda>d. bind_exn (getitem d ''coredata'') (\<lambda>cd. getitem cd ''dc:title'')) of
                  Inl e \<Rightarrow> (Inl e, self1, c1, w1)
                | Inr t \<Rightarrow> (Inr True, self1\<lparr>title := Some t\<rparr>, c1, w1))
             else (Inr False, self1, c1, w1)))"

section \<open>Replies and responses used in the examples\<close>


definition http_reply :: "int \<Rightarrow> string \<Rightarrow> json option \<Rightarrow> reply" where
  "http_reply st txt j =
     \<lparr>outcome = Returned \<lparr>status_code = st, body_text = txt, decoded = j\<rparr>,
      oversleep = 0, latency = 0\<rparr>"

definition ok_reply :: "json \<Rightarrow> reply" where
  "ok_reply j = http_reply 200 [] (Some j)"

definition no_reply :: reply where
  "no_reply = \<lparr>outcome = Raised, oversleep = 0, latency = 0\<rparr>"

text \<open>A network that gives every request the same reply, and one whose first reply differs.\<close>

definition always :: "reply \<Rightarrow> net" where
  "always rp n = rp"

definition first_then :: "reply \<Rightarrow> reply \<Rightarrow> net" where
  "first_then rp others n = (if n = 0 then rp else others)"

definition client0 :: client where
  "client0 = elsClient_init 0 ''key'' []"

definition world0 :: world where
  "world0 = \<lparr>now = 100, slept = [], sent = []\<rparr>"

definition jane_doe :: json where
  "jane_doe =
     JObj [(''author-retrieval-response'',
            JArr [JObj [(''coredata'', JObj [(''dc:identifier'', JStr ''AUTHOR_ID:123'')]),
                        (''author-profile'',
                         JObj [(''preferred-name'',
                                JObj [(''given-name'', JStr ''Jane''),
                                      (''surname'', JStr ''Doe'')])])]])]"

definition docs_page :: "json \<Rightarrow> json list \<Rightarrow> json" where
  "docs_page tot ds =
     JObj [(''author-retrieval-response'',
            JArr [JObj [(''documents'',
                        JObj [(''@total'', tot), (''abstract-document'', JArr ds)])]])]"

section \<open>Facts about one request\<close>

lemmas fixture_defs =
  always_def first_then_def http_reply_def ok_reply_def no_reply_def client0_def world0_def jane_doe_def docs_page_def
  elsClient_init_def elsAuthor_init_def elsAffil_init_def elsDoc_init_def

lemma execRequest_result:
  "fst (execRequest net URL c w) =
     (case outcome (net (length (sent w))) of
        Raised \<Rightarrow> Inl RequestException
      | Returned r \<Rightarrow> if status_code r = 200 then json_loads r else Inl TypeError)"
  by (simp add: execRequest_def Let_def split: get_result.split)

lemma execRequest_client:
  "apiKey (fst (snd (execRequest net URL c w))) = apiKey c"
  "instToken (fst (snd (execRequest net URL c w))) = instToken c"
  "numRes (fst (snd (execRequest net URL c w))) = numRes c"
  by (simp_all add: execRequest_def Let_def split: get_result.split)

lemma execRequest_sent:
  "sent (snd (snd (execRequest net URL c w))) =
     sent w @ [\<lparr>sent_at = tsLastReq (fst (snd (execRequest net URL c w))), url = URL,
                headers = request_headers c\<rparr>]"
  by (simp add: execRequest_def Let_def time_sleep_def request_headers_def split: get_result.split)


section \<open>A response with a status other than 200\<close>

text \<open>
  C1. On a response whose status is not 200, \<^verbatim>\<open>read\<close> should return False. Here the
  three entity classes read a 404 response: each call ends with \<open>TypeError\<close> leaving
  \<^verbatim>\<open>read\<close>, not with the value False; the entity itself is as it was.
\<close>

theorem read_non200_raises_TypeError:
  "elsAuthor_read (always (http_reply 404 ''Not Found'' None)) (elsAuthor_init ''u'') client0 world0
     = (Inl TypeError, elsAuthor_init ''u'', client0\<lparr>tsLastReq := 100\<rparr>,
        world0\<lparr>sent := [\<lparr>sent_at = 100, url = ''u'', headers = request_headers client0\<rparr>]\<rparr>)
   \<and> fst (elsAffil_read (always (http_reply 404 ''Not Found'' None)) (elsAffil_init ''u'') client0 world0)
       = Inl TypeError
   \<and> fst (elsDoc_read (always (http_reply 404 ''Not Found'' None)) (elsDoc_init ''u'') client0 world0)
       = Inl TypeError"
  by (simp add: elsAuthor_read_def elsAffil_read_def elsDoc_read_def elsEntity_read_def
      execRequest_def fixture_defs bind_exn_def handler_def minReqInterval_def
      request_headers_def)

text \<open>
  C2, as stated, fails: the value raised for a 404 response with body \<open>Not Found\<close> and
  the value raised for a 500 response with body \<open>Server Error\<close> are the same value, so
  it carries neither the status nor the body, and it is not \<open>HTTPError\<close>.
\<close>

theorem execRequest_error_counterexample:
  "fst (execRequest (always (http_reply 404 ''Not Found'' None)) ''u'' client0 world0)
     = fst (execRequest (always (http_reply 500 ''Server Error'' None)) ''u'' client0 world0)
   \<and> fst (execRequest (always (http_reply 404 ''Not Found'' None)) ''u'' client0 world0)
       \<noteq> Inl HTTPError"
  by (simp add: execRequest_result fixture_defs)

text \<open>
  C2, amended. When \<^verbatim>\<open>requests.get\<close> returns a response: on status 200 \<^verbatim>\<open>execRequest\<close>
  returns the value decoded from the body; on any other status it returns nothing and
  raises, and the value raised does not depend on the response (any two responses with
  a status other than 200 raise the same value).
\<close>

theorem execRequest_status:
  assumes "outcome (net (length (sent w))) = Returned r"
      and "outcome (net' (length (sent w'))) = Returned r'"
  shows "(status_code r = 200 \<and> decoded r = Some j \<longrightarrow> fst (execRequest net URL c w) = Inr j)
       \<and> (status_code r \<noteq> 200 \<longrightarrow>
            isl (fst (execRequest net URL c w))
          \<and> (status_code r' \<noteq> 200 \<longrightarrow>
               fst (execRequest net' URL' c' w') = fst (execRequest net URL c w)))"
  using assms by (simp add: execRequest_result json_loads_def)

theorem execRequest_status_witness:
  "fst (execRequest (\<lambda>n. ok_reply jane_doe) ''u'' client0 world0) = Inr jane_doe
   \<and> isl (fst (execRequest (\<lambda>n. http_reply 404 ''Not Found'' None) ''u'' client0 world0))
   \<and> fst (execRequest (\<lambda>n. http_reply 500 ''Server Error'' None) ''v'' client0 world0)
       = fst (execRequest (\<lambda>n. http_reply 404 ''Not Found'' None) ''u'' client0 world0)"
proof -
  have ok: "outcome ((\<lambda>n. ok_reply jane_doe) (length (sent world0)))
              = Returned \<lparr>status_code = 200, body_text = [], decoded = Some jane_doe\<rparr>"
    by (simp add: ok_reply_def http_reply_def)
  have e404: "outcome ((\<lambda>n. http_reply 404 ''Not Found'' None) (length (sent world0)))
              = Returned \<lparr>status_code = 404, body_text = ''Not Found'', decoded = None\<rparr>"
    by (simp add: http_reply_def)
  have e500: "outcome ((\<lambda>n. http_reply 500 ''Server Error'' None) (length (sent world0)))
              = Returned \<lparr>status_code = 500, body_text = ''Server Error'', decoded = None\<rparr>"
    by (simp add: http_reply_def)
  show ?thesis
    using execRequest_status [OF ok e404, where j = jane_doe and URL = "''u''" and c = client0
              and URL' = "''u''" and c' = client0]
          execRequest_status [OF e404 e500, where j = jane_doe and URL = "''u''" and c = client0
              and URL' = "''v''" and c' = client0]
    by simp
qed

section \<open>The two shapes of a payload\<close>

text \<open>
  C5. For every payload key and every record mapping \<open>m\<close>, \<^verbatim>\<open>read\<close> on the response
  \<open>{key: m}\<close> and \<^verbatim>\<open>read\<close> on the response \<open>{key: [m]}\<close> end in the same state with
  the same result: for \<^verbatim>\<open>elsEntity.read\<close> with any key, and for the three classes with
  their own keys.
\<close>

theorem read_single_or_list:
  "elsEntity_read (net(length (sent w) := ok_reply (JObj [(key, JObj m)]))) key self c w
     = elsEntity_read (net(length (sent w) := ok_reply (JObj [(key, JArr [JObj m])]))) key self c w
   \<and> elsAuthor_read (net(length (sent w) := ok_reply (JObj [(author_payloadType, JObj m)]))) a c w
     = elsAuthor_read (net(length (sent w) := ok_reply (JObj [(author_payloadType, JArr [JObj m])]))) a c w
   \<and> elsAffil_read (net(length (sent w) := ok_reply (JObj [(affil_payloadType, JObj m)]))) b c w
     = elsAffil_read (net(length (sent w) := ok_reply (JObj [(affil_payloadType, JArr [JObj m])]))) b c w
   \<and> elsDoc_read (net(length (sent w) := ok_reply (JObj [(doc_payloadType, JObj m)]))) d c w
     = elsDoc_read (net(length (sent w) := ok_reply (JObj [(doc_payloadType, JArr [JObj m])]))) d c w"
  by (simp add: elsAuthor_read_def elsAffil_read_def elsDoc_read_def elsEntity_read_def
      execRequest_def ok_reply_def http_reply_def json_loads_def bind_exn_def payload_def Let_def
      time_sleep_def split: sum.split option.split)

section \<open>The institutional token\<close>

text \<open>
  C9. The request \<^verbatim>\<open>execRequest\<close> sends has the header \<open>X-ELS-Insttoken\<close> exactly when
  the client's token is not the empty string, and then with the token as its value;
  \<^verbatim>\<open>execRequest\<close> leaves the token as it is; after \<^verbatim>\<open>setInstToken\<close> with the empty
  string the request has no such header.
\<close>

theorem execRequest_insttoken_header:
  "map_of (headers (last (sent (snd (snd (execRequest net URL c w)))))) ''X-ELS-Insttoken''
     = (if instToken c = [] then None else Some (instToken c))
   \<and> (''X-ELS-Insttoken'' \<in> fst ` set (headers (last (sent (snd (snd (execRequest net URL c w))))))
        = (instToken c \<noteq> []))
   \<and> instToken (fst (snd (execRequest net URL c w))) = instToken c
   \<and> ''X-ELS-Insttoken''
        \<notin> fst ` set (headers (last (sent (snd (snd (execRequest net URL (setInstToken [] c) w))))))"
  by (simp add: execRequest_sent execRequest_client request_headers_def setInstToken_def)

section \<open>Entities before any read\<close>

text \<open>
  C10. A new author has \<open>firstName\<close> and \<open>lastName\<close> equal to the empty string and no
  \<open>fullName\<close>; a new affiliation has no \<open>name\<close> and a new document no \<open>title\<close>, so
  reading those attributes raises \<open>AttributeError\<close>.
\<close>

theorem attributes_after_init:
  "firstName (elsAuthor_init URI) = Some (JStr [])
   \<and> lastName (elsAuthor_init URI) = Some (JStr [])
   \<and> getattr ''fullName'' (fullName (elsAuthor_init URI)) = Inl (AttributeError ''fullName'')
   \<and> getattr ''name'' (name (elsAffil_init URI)) = Inl (AttributeError ''name'')
   \<and> getattr ''title'' (title (elsDoc_init URI)) = Inl (AttributeError ''title'')"
  by (simp add: elsAuthor_init_def elsAffil_init_def elsDoc_init_def getattr_def)

section \<open>Reading an author\<close>

lemma str_concat_Inr:
  "str_concat a b = Inr x \<Longrightarrow> \<exists>s t. a = JStr s \<and> b = JStr t \<and> x = JStr (s @ t)"
  by (cases "(a, b)" rule: str_concat.cases) auto

text \<open>
  C7. Whenever \<^verbatim>\<open>elsAuthor.read\<close> returns True, \<open>firstName\<close> and \<open>lastName\<close> are
  strs and \<open>fullName\<close> is \<open>firstName\<close>, a space, \<open>lastName\<close>. For the response of the
  example, \<^verbatim>\<open>read\<close> returns True with id \<open>AUTHOR_ID:123\<close>, first name \<open>Jane\<close>, last
  name \<open>Doe\<close> and full name \<open>Jane Doe\<close>.
\<close>

theorem elsAuthor_read_fullName:
  "(fst (elsAuthor_read net self c w) = Inr True \<longrightarrow>
      (\<exists>f l. firstName (fst (snd (elsAuthor_read net self c w))) = Some (JStr f)
           \<and> lastName (fst (snd (elsAuthor_read net self c w))) = Some (JStr l)
           \<and> fullName (fst (snd (elsAuthor_read net self c w))) = Some (JStr (f @ '' '' @ l))))
   \<and> fst (elsAuthor_read (\<lambda>n. ok_reply jane_doe) (elsAuthor_init u) client0 world0) = Inr True
   \<and> ID (fst (snd (elsAuthor_read (\<lambda>n. ok_reply jane_doe) (elsAuthor_init u) client0 world0)))
       = Some (JStr ''AUTHOR_ID:123'')
   \<and> firstName (fst (snd (elsAuthor_read (\<lambda>n. ok_reply jane_doe) (elsAuthor_init u) client0 world0)))
       = Some (JStr ''Jane'')
   \<and> lastName (fst (snd (elsAuthor_read (\<lambda>n. ok_reply jane_doe) (elsAuthor_init u) client0 world0)))
       = Some (JStr ''Doe'')
   \<and> fullName (fst (snd (elsAuthor_read (\<lambda>n. ok_reply jane_doe) (elsAuthor_init u) client0 world0)))
       = Some (JStr ''Jane Doe'')"
proof -
  have general: "\<exists>f l. firstName (fst (snd (elsAuthor_read net self c w))) = Some (JStr f)
           \<and> lastName (fst (snd (elsAuthor_read net self c w))) = Some (JStr l)
           \<and> fullName (fst (snd (elsAuthor_read net self c w))) = Some (JStr (f @ '' '' @ l))"
    if "fst (elsAuthor_read net self c w) = Inr True"
    using that
    by (auto simp: elsAuthor_read_def Let_def bind_exn_def
          split: prod.splits sum.splits if_splits dest!: str_concat_Inr)
  have example:
    "elsAuthor_read (\<lambda>n. ok_reply jane_doe) (elsAuthor_init u) client0 world0
       = (Inr True,
          (elsAuthor_init u)
            \<lparr>data := Some (JObj [(''coredata'', JObj [(''dc:identifier'', JStr ''AUTHOR_ID:123'')]),
                                 (''author-profile'',
                                  JObj [(''preferred-name'',
                                         JObj [(''given-name'', JStr ''Jane''),
                                               (''surname'', JStr ''Doe'')])])]),
             ID := Some (JStr ''AUTHOR_ID:123''),
             firstName := Some (JStr ''Jane''), lastName := Some (JStr ''Doe''),
             fullName := Some (JStr ''Jane Doe'')\<rparr>,
          client0\<lparr>tsLastReq := 100\<rparr>,
          world0\<lparr>sent := [\<lparr>sent_at = 100, url = u, headers = request_headers client0\<rparr>]\<rparr>)"
    by (simp add: elsAuthor_read_def elsEntity_read_def execRequest_def fixture_defs
        json_loads_def bind_exn_def payload_def handler_def getattr_def preferred_name_def
        author_payloadType_def minReqInterval_def request_headers_def)
  show ?thesis
    using general by (simp add: example)
qed

theorem elsAuthor_read_fullName_witness:
  "fst (elsAuthor_read (\<lambda>n. ok_reply jane_doe)
          (elsAuthor_init ''https://api.elsevier.com/content/author/author-id/123'')
          client0 world0) = Inr True
   \<and> (\<exists>f l. firstName (fst (snd (elsAuthor_read (\<lambda>n. ok_reply jane_doe)
          (elsAuthor_init ''https://api.elsevier.com/content/author/author-id/123'')
          client0 world0))) = Some (JStr f)
         \<and> lastName (fst (snd (elsAuthor_read (\<lambda>n. ok_reply jane_doe)
          (elsAuthor_init ''https://api.elsevier.com/content/author/author-id/123'')
          client0 world0))) = Some (JStr l)
         \<and> fullName (fst (snd (elsAuthor_read (\<lambda>n. ok_reply jane_doe)
          (elsAuthor_init ''https://api.elsevier.com/content/author/author-id/123'')
          client0 world0))) = Some (JStr (f @ '' '' @ l)))"
  using elsAuthor_read_fullName
    [where net = "\<lambda>n. ok_reply jane_doe"
       and self = "elsAuthor_init ''https://api.elsevier.com/content/author/author-id/123''"
       and c = client0 and w = world0
       and u = "''https://api.elsevier.com/content/author/author-id/123''"]
  by blast

section \<open>A response that lacks an expected key\<close>

lemma elsEntity_read_200:
  assumes "outcome (net (length (sent w))) = Returned r" "status_code r = 200"
      and "decoded r = Some j"
  shows "fst (elsEntity_read net pt self c w) =
           (case payload j pt of
              Inl e \<Rightarrow> handler e
            | Inr d \<Rightarrow>
                (case bind_exn (getitem d ''coredata'') (\<lambda>cd. getitem cd ''dc:identifier'') of
                   Inl e \<Rightarrow> handler e
                 | Inr i \<Rightarrow> Inr True))"
proof -
  have "fst (execRequest net (uri self) c w) = Inr j"
    using assms by (simp add: execRequest_result json_loads_def)
  then show ?thesis
    by (auto simp: elsEntity_read_def bind_exn_def Let_def split: prod.splits sum.splits)
qed

lemma subclass_read_raises:
  "fst (elsEntity_read net author_payloadType a c w) = Inl e
     \<Longrightarrow> fst (elsAuthor_read net a c w) = Inl e"
  "fst (elsEntity_read net affil_payloadType b c w) = Inl e
     \<Longrightarrow> fst (elsAffil_read net b c w) = Inl e"
  "fst (elsEntity_read net doc_payloadType d c w) = Inl e
     \<Longrightarrow> fst (elsDoc_read net d c w) = Inl e"
  by (auto simp: elsAuthor_read_def elsAffil_read_def elsDoc_read_def split: prod.splits)

text \<open>
  C8. On a 200 response whose body is a dict: when the body has no item under the payload
  key, or the payload has no \<open>coredata\<close>, or \<open>coredata\<close> has no \<open>dc:identifier\<close>,
  \<^verbatim>\<open>elsEntity.read\<close> does not return False: the \<open>KeyError\<close> of the failed lookup leaves
  it. Whatever exception leaves \<^verbatim>\<open>elsEntity.read\<close> also leaves the \<^verbatim>\<open>read\<close> of an
  author, an affiliation and a document.
\<close>

theorem read_missing_key_raises:
  assumes "outcome (net (length (sent w))) = Returned r" and "status_code r = 200"
      and "decoded r = Some (JObj body)"
  shows "(map_of body pt = None \<longrightarrow>
            fst (elsEntity_read net pt self c w) = Inl (KeyError pt))
       \<and> (payload (JObj body) pt = Inr (JObj rec) \<and> map_of rec ''coredata'' = None \<longrightarrow>
            fst (elsEntity_read net pt self c w) = Inl (KeyError ''coredata''))
       \<and> (payload (JObj body) pt = Inr (JObj rec) \<and> map_of rec ''coredata'' = Some (JObj core)
            \<and> map_of core ''dc:identifier'' = None \<longrightarrow>
            fst (elsEntity_read net pt self c w) = Inl (KeyError ''dc:identifier''))
       \<and> (\<forall>e. fst (elsEntity_read net author_payloadType a c w) = Inl e \<longrightarrow>
            fst (elsAuthor_read net a c w) = Inl e)
       \<and> (\<forall>e. fst (elsEntity_read net affil_payloadType b c w) = Inl e \<longrightarrow>
            fst (elsAffil_read net b c w) = Inl e)
       \<and> (\<forall>e. fst (elsEntity_read net doc_payloadType d c w) = Inl e \<longrightarrow>
            fst (elsDoc_read net d c w) = Inl e)"
  using elsEntity_read_200 [where net = net and w = w and pt = pt and self = self and c = c,
          OF assms]
        subclass_read_raises [where net = net and c = c and w = w]
  by (auto simp: payload_def bind_exn_def handler_def)

theorem read_missing_key_raises_witness:
  "fst (elsEntity_read (\<lambda>n. ok_reply (JObj [])) author_payloadType (elsAuthor_init ''u'') client0 world0)
     = Inl (KeyError author_payloadType)
   \<and> fst (elsEntity_read (\<lambda>n. ok_reply (JObj [(author_payloadType, JObj [])]))
            author_payloadType (elsAuthor_init ''u'') client0 world0)
     = Inl (KeyError ''coredata'')
   \<and> fst (elsEntity_read (\<lambda>n. ok_reply (JObj [(author_payloadType, JObj [(''coredata'', JObj [])])]))
            author_payloadType (elsAuthor_init ''u'') client0 world0)
     = Inl (KeyError ''dc:identifier'')
   \<and> fst (elsAuthor_read (\<lambda>n. ok_reply (JObj [])) (elsAuthor_init ''u'') client0 world0)
     = Inl (KeyError author_payloadType)
   \<and> fst (elsAffil_read (\<lambda>n. ok_reply (JObj [])) (elsAffil_init ''u'') client0 world0)
     = Inl (KeyError affil_payloadType)
   \<and> fst (elsDoc_read (\<lambda>n. ok_reply (JObj [])) (elsDoc_init ''u'') client0 world0)
     = Inl (KeyError doc_payloadType)"
proof -
  have r: "outcome ((\<lambda>n. ok_reply j) (length (sent world0)))
             = Returned \<lparr>status_code = 200, body_text = [], decoded = Some j\<rparr>"
          "status_code \<lparr>status_code = 200, body_text = [], decoded = Some j\<rparr> = 200"
          "decoded \<lparr>status_code = 200, body_text = [], decoded = Some j\<rparr> = Some j" for j
    by (simp_all add: ok_reply_def http_reply_def)
  note t = read_missing_key_raises [where w = world0 and c = client0
             and a = "elsAuthor_init ''u''" and b = "elsAffil_init ''u''"
             and d = "elsDoc_init ''u''"]
  show ?thesis
    using t [where body = "[]" and pt = author_payloadType and self = "elsAuthor_init ''u''", OF r]
          t [where body = "[]" and pt = affil_payloadType and self = "elsAffil_init ''u''", OF r]
          t [where body = "[]" and pt = doc_payloadType and self = "elsDoc_init ''u''", OF r]
          t [where body = "[(author_payloadType, JObj [])]" and pt = author_payloadType
               and self = "elsAuthor_init ''u''" and rec = "[]", OF r]
          t [where body = "[(author_payloadType, JObj [(''coredata'', JObj [])])]"
               and pt = author_payloadType and self = "elsAuthor_init ''u''"
               and rec = "[(''coredata'', JObj [])]" and core = "[]", OF r]
    by (simp add: payload_def bind_exn_def)
qed

section \<open>Fetching the pages of a document list\<close>













section \<open>The throttle\<close>

lemma execRequest_clock:
  assumes "execRequest net URL c w = (r, c1, w1)"
  shows "tsLastReq c1
           = (if now w - tsLastReq c < minReqInterval
              then tsLastReq c + minReqInterval + oversleep (net (length (sent w)))
              else now w)"
    and "slept w1
           = slept w @ (if now w - tsLastReq c < minReqInterval
                        then [minReqInterval - (now w - tsLastReq c)] else [])"
    and "now w1 = tsLastReq c1 + latency (net (length (sent w)))"
    and "sent w1 = sent w @ [\<lparr>sent_at = tsLastReq c1, url = URL, headers = request_headers c\<rparr>]"
  using assms
  by (auto simp: execRequest_def Let_def time_sleep_def request_headers_def
           split: get_result.splits if_splits)

text \<open>
  C6. Two consecutive calls of \<^verbatim>\<open>execRequest\<close> on one client, the caller pausing for
  any time between them, on a clock that does not run backwards (a sleep lasts at least
  as long as asked, a request takes no negative time). If less than the minimum interval
  of one second has passed since the first request when the second call starts, the call
  sleeps for the remainder of the interval, and otherwise not at all; the timestamp of
  the last request is the clock reading after the sleep, at which the request leaves; and
  the second request leaves at least the minimum interval after the first.
\<close>

theorem execRequest_throttle:
  assumes "0 \<le> latency (net (length (sent w)))"
      and "0 \<le> oversleep (net (Suc (length (sent w))))"
      and "0 \<le> pause"
      and "execRequest net URL1 c w = (r1, c1, w1)"
      and "execRequest net URL2 c1 (w1\<lparr>now := now w1 + pause\<rparr>) = (r2, c2, w2)"
  shows "minReqInterval = 1
       \<and> slept w2
           = slept w1 @ (if now w1 + pause - tsLastReq c1 < minReqInterval
                         then [minReqInterval - (now w1 + pause - tsLastReq c1)] else [])
       \<and> tsLastReq c1 = sent_at (sent w2 ! length (sent w))
       \<and> tsLastReq c2 = sent_at (sent w2 ! Suc (length (sent w)))
       \<and> length (sent w2) = length (sent w) + 2
       \<and> minReqInterval
           \<le> sent_at (sent w2 ! Suc (length (sent w))) - sent_at (sent w2 ! length (sent w))"
proof -
  let ?w1 = "w1\<lparr>now := now w1 + pause\<rparr>"
  note a = execRequest_clock [OF assms(4)]
  note b = execRequest_clock [OF assms(5)]
  have len1: "length (sent w1) = Suc (length (sent w))"
    using a(4) by simp
  have sent2: "sent w2 = sent w
                 @ [\<lparr>sent_at = tsLastReq c1, url = URL1, headers = request_headers c\<rparr>,
                    \<lparr>sent_at = tsLastReq c2, url = URL2, headers = request_headers c1\<rparr>]"
    using a(4) b(4) by simp
  have t1: "tsLastReq c1 = sent_at (sent w2 ! length (sent w))"
    by (simp add: sent2 nth_append)
  have t2: "tsLastReq c2 = sent_at (sent w2 ! Suc (length (sent w)))"
    by (simp add: sent2 nth_append)
  have sl: "slept w2
           = slept w1 @ (if now w1 + pause - tsLastReq c1 < minReqInterval
                         then [minReqInterval - (now w1 + pause - tsLastReq c1)] else [])"
    using b(2) by simp
  have gap: "minReqInterval \<le> tsLastReq c2 - tsLastReq c1"
  proof (cases "now w1 + pause - tsLastReq c1 < minReqInterval")
    case True
    then have "tsLastReq c2 = tsLastReq c1 + minReqInterval + oversleep (net (length (sent w1)))"
      using b(1) by simp
    then show ?thesis
      using assms(2) len1 by simp
  next
    case False
    then have "tsLastReq c2 = now w1 + pause"
      using b(1) by simp
    then show ?thesis
      using False by simp
  qed
  have len2: "length (sent w2) = length (sent w) + 2"
    by (simp add: sent2)
  have gap': "minReqInterval
                \<le> sent_at (sent w2 ! Suc (length (sent w))) - sent_at (sent w2 ! length (sent w))"
    using gap by (simp only: t1 t2)
  show ?thesis
    by (intro conjI) (rule minReqInterval_def sl t1 t2 len2 gap')+
qed

theorem execRequest_throttle_witness:
  "execRequest (\<lambda>n. ok_reply jane_doe\<lparr>oversleep := 1 / 100, latency := 1 / 4\<rparr>) ''u'' client0
     \<lparr>now = 1 / 2, slept = [], sent = []\<rparr>
     = (Inr jane_doe, client0\<lparr>tsLastReq := 101 / 100\<rparr>,
        \<lparr>now = 126 / 100, slept = [1 / 2],
         sent = [\<lparr>sent_at = 101 / 100, url = ''u'', headers = request_headers client0\<rparr>]\<rparr>)
   \<and> execRequest (\<lambda>n. ok_reply jane_doe\<lparr>oversleep := 1 / 100, latency := 1 / 4\<rparr>) ''v''
       (client0\<lparr>tsLastReq := 101 / 100\<rparr>)
       \<lparr>now = 126 / 100 + 1 / 10, slept = [1 / 2],
        sent = [\<lparr>sent_at = 101 / 100, url = ''u'', headers = request_headers client0\<rparr>]\<rparr>
     = (Inr jane_doe, client0\<lparr>tsLastReq := 202 / 100\<rparr>,
        \<lparr>now = 227 / 100, slept = [1 / 2, 65 / 100],
         sent = [\<lparr>sent_at = 101 / 100, url = ''u'', headers = request_headers client0\<rparr>,
                 \<lparr>sent_at = 202 / 100, url = ''v'', headers = request_headers client0\<rparr>]\<rparr>)
   \<and> (1::rat) \<le> 202 / 100 - 101 / 100"
proof -
  let ?net = "\<lambda>n::nat. ok_reply jane_doe\<lparr>oversleep := 1 / 100, latency := 1 / 4\<rparr>"
  let ?w = "\<lparr>now = 1 / 2, slept = [], sent = []\<rparr> :: world"
  let ?c1 = "client0\<lparr>tsLastReq := 101 / 100\<rparr>"
  let ?w1 = "\<lparr>now = 126 / 100, slept = [1 / 2],
              sent = [\<lparr>sent_at = 101 / 100, url = ''u'', headers = request_headers client0\<rparr>]\<rparr>"
  let ?c2 = "client0\<lparr>tsLastReq := 202 / 100\<rparr>"
  let ?w2 = "\<lparr>now = 227 / 100, slept = [1 / 2, 65 / 100],
              sent = [\<lparr>sent_at = 101 / 100, url = ''u'', headers = request_headers client0\<rparr>,
                      \<lparr>sent_at = 202 / 100, url = ''v'', headers = request_headers client0\<rparr>]\<rparr>"
  have lat: "0 \<le> latency (?net (length (sent ?w)))"
    by (simp add: fixture_defs)
  have over: "0 \<le> oversleep (?net (Suc (length (sent ?w))))"
    by (simp add: fixture_defs)
  have pause: "(0::rat) \<le> 1 / 10"
    by simp
  have first: "execRequest ?net ''u'' client0 ?w = (Inr jane_doe, ?c1, ?w1)"
    by (simp add: execRequest_def fixture_defs json_loads_def minReqInterval_def
        time_sleep_def request_headers_def)
  have second: "execRequest ?net ''v'' ?c1 (?w1\<lparr>now := now ?w1 + 1 / 10\<rparr>)
                  = (Inr jane_doe, ?c2, ?w2)"
    by (simp add: execRequest_def fixture_defs json_loads_def minReqInterval_def
        time_sleep_def request_headers_def)
  from execRequest_throttle [where net = ?net and w = ?w and c = client0, OF lat over pause first second]
  have "minReqInterval \<le> sent_at (sent ?w2 ! Suc (length (sent ?w))) - sent_at (sent ?w2 ! length (sent ?w))"
    by blast
  then show ?thesis
    using first second by (simp add: minReqInterval_def)
qed

end
